theory Spec2Isabelle
  imports Complex_Main "HOL-Library.Word"
begin

chapter \<open>VaporBooster: rate gating, backoff, credential envelope, snapshots, session reports\<close>

text \<open>
  The definitions below embed the JavaScript sources function by function. Mutable
  fields of a class instance become a record that is passed in and returned,
  a \<^verbatim>\<open>throw\<close> becomes an \<open>Inl\<close> result, values read from the environment
  (\<^verbatim>\<open>Date.now()\<close>, \<^verbatim>\<open>crypto.randomBytes\<close>, \<^verbatim>\<open>Math.random()\<close>, the outcome of a file
  system call) become arguments.
\<close>

section \<open>RateLimiter (src/unnamed/part_003, the rate limiter module)\<close>

text \<open>
  \<^verbatim>\<open>this.requests\<close> is the list of recorded timestamps in milliseconds. The fields
  \<^verbatim>\<open>queue\<close> and \<^verbatim>\<open>processing\<close> are never read by the acquisition path and are left out.
\<close>

record RateLimiter =
  maxRequests :: int
  intervalMs :: int
  requests :: "int list"

text \<open>\<^verbatim>\<open>new RateLimiter(maxRequests, intervalMs)\<close>.\<close>

definition new_RateLimiter :: "int \<Rightarrow> int \<Rightarrow> RateLimiter" where
  "new_RateLimiter m w = \<lparr>maxRequests = m, intervalMs = w, requests = []\<rparr>"

text \<open>\<^verbatim>\<open>cleanup()\<close>; \<open>now\<close> is the value \<^verbatim>\<open>Date.now()\<close> returns inside it.\<close>

definition cleanup :: "int \<Rightarrow> RateLimiter \<Rightarrow> RateLimiter" where
  "cleanup now rl = rl\<lparr>requests := filter (\<lambda>t. now - t < intervalMs rl) (requests rl)\<rparr>"

definition canMakeRequest :: "int \<Rightarrow> RateLimiter \<Rightarrow> bool \<times> RateLimiter" where
  "canMakeRequest now rl =
     (let rl' = cleanup now rl in (int (length (requests rl')) < maxRequests rl', rl'))"

text \<open>
  One run of the closure \<^verbatim>\<open>check\<close> inside \<^verbatim>\<open>waitForSlot\<close>. It reads the clock twice:
  \<open>fst clk\<close> in \<^verbatim>\<open>cleanup\<close>, \<open>snd clk\<close> for the timestamp it pushes. The result is
  \<open>True\<close> when the promise is resolved, \<open>False\<close> when the closure re-arms its timer.
\<close>

definition check :: "int \<times> int \<Rightarrow> RateLimiter \<Rightarrow> bool \<times> RateLimiter" where
  "check clk rl =
     (let (ok, rl') = canMakeRequest (fst clk) rl in
      if ok then (True, rl'\<lparr>requests := requests rl' @ [snd clk]\<rparr>) else (False, rl'))"

text \<open>
  A sequence of runs of \<^verbatim>\<open>check\<close> (from any number of pending \<^verbatim>\<open>waitForSlot\<close> calls,
  in the order the event loop runs them). Beside the limiter, the second component
  collects the timestamp of every permitted call; it is a ghost history, never pruned.
\<close>

definition poll :: "RateLimiter \<times> int list \<Rightarrow> int \<times> int \<Rightarrow> RateLimiter \<times> int list" where
  "poll st clk =
     (let (ok, rl') = check clk (fst st) in
      if ok then (rl', snd st @ [snd clk]) else (rl', snd st))"

definition polls :: "RateLimiter \<Rightarrow> (int \<times> int) list \<Rightarrow> RateLimiter \<times> int list" where
  "polls rl clks = foldl poll (rl, []) clks"

text \<open>The clock values in the order they were read.\<close>

definition clock_reads :: "(int \<times> int) list \<Rightarrow> int list" where
  "clock_reads clks = concat (map (\<lambda>c. [fst c, snd c]) clks)"

text \<open>The trailing window of length \<open>W\<close> that ends at time \<open>T\<close>.\<close>

definition in_window :: "int \<Rightarrow> int \<Rightarrow> int \<Rightarrow> bool" where
  "in_window W T t = (t \<le> T \<and> T - t < W)"

section \<open>ConcurrencyLimiter (src/unnamed/part_003, the rate limiter module)\<close>

text \<open>
  \<^verbatim>\<open>execute\<close> is an async function; between two \<^verbatim>\<open>await\<close>s it runs without
  interruption. Each call is a task with a program counter:
  \<^item> \<open>Idle\<close>: \<^verbatim>\<open>execute\<close> has not been called for it;
  \<^item> \<open>Queued\<close>: suspended in the \<^verbatim>\<open>while\<close> loop, its \<^verbatim>\<open>resolve\<close> is in \<^verbatim>\<open>this.queue\<close>;
  \<^item> \<open>Woken\<close>: its \<^verbatim>\<open>resolve\<close> was called, the continuation has not run yet;
  \<^item> \<open>Running\<close>: past \<^verbatim>\<open>this.running++\<close>, awaiting \<^verbatim>\<open>fn()\<close>;
  \<^item> \<open>Done ok\<close>: the \<^verbatim>\<open>finally\<close> block has run; \<open>ok\<close> is \<open>False\<close> when \<^verbatim>\<open>fn\<close> threw or rejected.
  The queue holds the task numbers whose \<^verbatim>\<open>resolve\<close> callbacks it holds in the source.
\<close>

datatype pc = Idle | Queued | Woken | Running | Done bool









section \<open>CryptoManager (src/unnamed/part_003, the encryption utilities)\<close>

subsection \<open>Buffers, hex and UTF-8\<close>

text \<open>
  A \<^verbatim>\<open>Buffer\<close> is a list of bytes. A JavaScript string is represented by the bytes of
  its UTF-8 encoding, one \<open>char\<close> per byte, so that encoding and decoding
  \<^verbatim>\<open>'utf8'\<close> relabel bytes; this is exact for well-formed strings.
\<close>

type_synonym byte = "8 word"
type_synonym buffer = "byte list"

definition utf8_bytes :: "string \<Rightarrow> buffer" where
  "utf8_bytes s = map (\<lambda>c. word_of_nat (of_char c)) s"

definition utf8_string :: "buffer \<Rightarrow> string" where
  "utf8_string bs = map (\<lambda>b. char_of (unat b)) bs"

definition hex_digit :: "nat \<Rightarrow> char" where
  "hex_digit n = ''0123456789abcdef'' ! n"

text \<open>\<^verbatim>\<open>buf.toString('hex')\<close>: two lower-case digits per byte.\<close>

definition to_hex :: "buffer \<Rightarrow> string" where
  "to_hex bs = concat (map (\<lambda>b. [hex_digit (unat b div 16), hex_digit (unat b mod 16)]) bs)"

definition hex_val :: "char \<Rightarrow> nat option" where
  "hex_val c =
     (let n = (of_char c :: nat) in
      if 48 \<le> n \<and> n \<le> 57 then Some (n - 48)
      else if 97 \<le> n \<and> n \<le> 102 then Some (n - 87)
      else if 65 \<le> n \<and> n \<le> 70 then Some (n - 55)
      else None)"

text \<open>
  \<^verbatim>\<open>Buffer.from(s, 'hex')\<close>: decodes pairs of hex digits and stops, without an error,
  at the first pair that is not hex or at a single trailing character.
\<close>

fun from_hex :: "string \<Rightarrow> buffer" where
  "from_hex (a # b # rest) =
     (case (hex_val a, hex_val b) of
        (Some x, Some y) \<Rightarrow> word_of_nat (16 * x + y) # from_hex rest
      | _ \<Rightarrow> [])"
| "from_hex _ = []"

text \<open>\<^verbatim>\<open>s.split(c)\<close> for a one-character separator: never empty, empty parts kept.\<close>

fun split_on :: "char \<Rightarrow> string \<Rightarrow> string list" where
  "split_on c [] = [[]]"
| "split_on c (x # xs) =
     (let r = split_on c xs in if x = c then [] # r else (x # hd r) # tl r)"

text \<open>\<^verbatim>\<open>parts[i]\<close>: \<open>None\<close> is \<^verbatim>\<open>undefined\<close>.\<close>

definition element :: "'a list \<Rightarrow> nat \<Rightarrow> 'a option" where
  "element xs i = (if i < length xs then Some (xs ! i) else None)"

subsection \<open>The platform: random bytes and \<^verbatim>\<open>node:crypto\<close>\<close>

text \<open>
  \<^verbatim>\<open>crypto.randomBytes(n)\<close> hands out the next \<open>n\<close> bytes of an entropy source; the
  source and the number of bytes already used are threaded through every function
  that draws from it.
\<close>

record rng =
  source :: "nat \<Rightarrow> byte"
  used :: nat

definition randomBytes :: "nat \<Rightarrow> rng \<Rightarrow> buffer \<times> rng" where
  "randomBytes n g = (map (source g) [used g ..< used g + n], g\<lparr>used := used g + n\<rparr>)"

text \<open>What the try block of \<^verbatim>\<open>decrypt\<close> can throw, and \<^verbatim>\<open>createCipheriv\<close> in \<^verbatim>\<open>encrypt\<close>.\<close>

datatype crypto_error = TypeError | InvalidKeyOrIv | InvalidTag | AuthFailed

text \<open>
  The AES-256-GCM primitive and PBKDF2 belong to the platform, not to this repository;
  the functions below take them as a parameter.
  \<^item> \<open>gcm_encrypt key iv plaintext\<close> is \<^verbatim>\<open>createCipheriv\<close>, \<^verbatim>\<open>update\<close>, \<^verbatim>\<open>final\<close> and
    \<^verbatim>\<open>getAuthTag\<close>: the ciphertext and the tag, or the error \<^verbatim>\<open>createCipheriv\<close> throws.
  \<^item> \<open>gcm_decrypt key iv tag ciphertext\<close> is \<^verbatim>\<open>createDecipheriv\<close>, \<^verbatim>\<open>setAuthTag\<close>,
    \<^verbatim>\<open>update\<close> and \<^verbatim>\<open>final\<close>: the plaintext, or the error one of them throws
    (\<open>AuthFailed\<close> when \<^verbatim>\<open>final\<close> rejects the tag).
  \<^item> \<open>pbkdf2 password salt\<close> is \<^verbatim>\<open>pbkdf2Sync(password, salt, 100000, 32, 'sha256')\<close>
    for a string password.
\<close>

record node_crypto =
  gcm_encrypt :: "buffer \<Rightarrow> buffer \<Rightarrow> buffer \<Rightarrow> crypto_error + (buffer \<times> buffer)"
  gcm_decrypt :: "buffer \<Rightarrow> buffer \<Rightarrow> buffer \<Rightarrow> buffer \<Rightarrow> crypto_error + buffer"
  pbkdf2 :: "string \<Rightarrow> buffer \<Rightarrow> buffer"

definition KEY_LENGTH :: nat where "KEY_LENGTH = 32"
definition IV_LENGTH :: nat where "IV_LENGTH = 16"
definition SALT_LENGTH :: nat where "SALT_LENGTH = 64"
definition TAG_LENGTH :: nat where "TAG_LENGTH = 16"

subsection \<open>encrypt and decrypt\<close>

text \<open>
  \<^verbatim>\<open>deriveKey(password, salt)\<close>. The password is \<open>None\<close> for \<^verbatim>\<open>null\<close>, for which
  \<^verbatim>\<open>pbkdf2Sync\<close> throws a \<^verbatim>\<open>TypeError\<close>.
\<close>

definition deriveKey :: "node_crypto \<Rightarrow> string option \<Rightarrow> buffer \<Rightarrow> crypto_error + buffer" where
  "deriveKey L password salt =
     (case password of None \<Rightarrow> Inl TypeError | Some pw \<Rightarrow> Inr (pbkdf2 L pw salt))"

text \<open>The test \<^verbatim>\<open>if (password)\<close>: \<^verbatim>\<open>null\<close> and the empty string are falsy.\<close>

definition truthy :: "string option \<Rightarrow> bool" where
  "truthy password = (case password of None \<Rightarrow> False | Some pw \<Rightarrow> pw \<noteq> [])"

text \<open>
  \<^verbatim>\<open>encrypt(plaintext, password = null)\<close> with \<open>encryptionKey\<close> the field
  \<^verbatim>\<open>this.encryptionKey\<close>. In the password branch the source calls \<^verbatim>\<open>randomBytes(SALT_LENGTH)\<close>
  twice: once for the salt the key is derived from, and once more, after the cipher has
  run, for the salt that is written into the envelope.
\<close>

definition encrypt ::
  "node_crypto \<Rightarrow> buffer \<Rightarrow> string \<Rightarrow> string option \<Rightarrow> rng \<Rightarrow> (crypto_error + string) \<times> rng" where
  "encrypt L encryptionKey plaintext password g =
     (if plaintext = [] then (Inr plaintext, g)
      else
        let (key, g1) =
              (if truthy password
               then let (salt, g') = randomBytes SALT_LENGTH g in (deriveKey L password salt, g')
               else (Inr encryptionKey, g));
            (iv, g2) = randomBytes IV_LENGTH g1
        in case key of
             Inl e \<Rightarrow> (Inl e, g2)
           | Inr k \<Rightarrow>
               (case gcm_encrypt L k iv (utf8_bytes plaintext) of
                  Inl e \<Rightarrow> (Inl e, g2)
                | Inr (encrypted, tag) \<Rightarrow>
                    if truthy password
                    then let (salt, g3) = randomBytes SALT_LENGTH g2
                         in (Inr (to_hex salt @ '':'' @ to_hex iv @ '':'' @ to_hex tag @ '':'' @ to_hex encrypted), g3)
                    else (Inr (to_hex iv @ '':'' @ to_hex tag @ '':'' @ to_hex encrypted), g2)))"

text \<open>
  \<^verbatim>\<open>Buffer.from(parts[i], 'hex')\<close> throws a \<^verbatim>\<open>TypeError\<close> for \<^verbatim>\<open>undefined\<close>, and so does
  \<^verbatim>\<open>decipher.update(undefined, 'hex', 'utf8')\<close>.
\<close>

definition Buffer_from_hex :: "string option \<Rightarrow> crypto_error + buffer" where
  "Buffer_from_hex p = (case p of None \<Rightarrow> Inl TypeError | Some s \<Rightarrow> Inr (from_hex s))"

text \<open>The last five statements of the try block, from \<^verbatim>\<open>createDecipheriv\<close> on.\<close>

definition decipher ::
  "node_crypto \<Rightarrow> crypto_error + buffer \<Rightarrow> crypto_error + buffer \<Rightarrow> crypto_error + buffer
     \<Rightarrow> string option \<Rightarrow> crypto_error + string" where
  "decipher L key iv tag encrypted =
     (case key of Inl e \<Rightarrow> Inl e | Inr k \<Rightarrow>
      case iv of Inl e \<Rightarrow> Inl e | Inr i \<Rightarrow>
      case tag of Inl e \<Rightarrow> Inl e | Inr t \<Rightarrow>
      case Buffer_from_hex encrypted of Inl e \<Rightarrow> Inl e | Inr c \<Rightarrow>
      case gcm_decrypt L k i t c of Inl e \<Rightarrow> Inl e | Inr p \<Rightarrow> Inr (utf8_string p))"

text \<open>The try block of \<^verbatim>\<open>decrypt\<close>: \<open>Inl\<close> is a throw, \<open>Inr\<close> the value of \<^verbatim>\<open>return decrypted\<close>.\<close>

definition decrypt_try ::
  "node_crypto \<Rightarrow> buffer \<Rightarrow> string \<Rightarrow> string option \<Rightarrow> crypto_error + string" where
  "decrypt_try L encryptionKey ciphertext password =
     (let parts = split_on CHR '':'' ciphertext in
      if length parts = 4
      then (case Buffer_from_hex (element parts 0) of
              Inl e \<Rightarrow> Inl e
            | Inr salt \<Rightarrow>
                decipher L (deriveKey L password salt)
                  (Buffer_from_hex (element parts 1)) (Buffer_from_hex (element parts 2))
                  (element parts 3))
      else decipher L (Inr encryptionKey)
             (Buffer_from_hex (element parts 0)) (Buffer_from_hex (element parts 1))
             (element parts 2))"

text \<open>
  \<^verbatim>\<open>decrypt(ciphertext, password = null)\<close> for a string \<^verbatim>\<open>ciphertext\<close>: the value returned
  to the caller. The catch block returns the argument.
\<close>

definition decrypt :: "node_crypto \<Rightarrow> buffer \<Rightarrow> string \<Rightarrow> string option \<Rightarrow> string" where
  "decrypt L encryptionKey ciphertext password =
     (if ciphertext = [] \<or> CHR '':'' \<notin> set ciphertext then ciphertext
      else case decrypt_try L encryptionKey ciphertext password of
             Inl e \<Rightarrow> ciphertext
           | Inr decrypted \<Rightarrow> decrypted)"


subsection \<open>encryptAccount and decryptAccount\<close>

text \<open>
  An account object with the fields these two functions touch; \<open>encrypted_marker\<close>
  is the field \<^verbatim>\<open>_encrypted\<close> (\<open>False\<close> also when the field is absent), the other
  fields are carried along by the spread \<^verbatim>\<open>...account\<close>.
\<close>

record account =
  username :: string
  password :: string
  sharedSecret :: string
  encrypted_marker :: bool

text \<open>\<^verbatim>\<open>encryptAccount(account)\<close> for an account that is not \<^verbatim>\<open>null\<close>.\<close>

definition encryptAccount ::
  "node_crypto \<Rightarrow> buffer \<Rightarrow> account \<Rightarrow> rng \<Rightarrow> (crypto_error + account) \<times> rng" where
  "encryptAccount L encryptionKey acc g =
     (case encrypt L encryptionKey (password acc) None g of
        (Inl e, g1) \<Rightarrow> (Inl e, g1)
      | (Inr p, g1) \<Rightarrow>
          (case (if sharedSecret acc \<noteq> [] then encrypt L encryptionKey (sharedSecret acc) None g1
                 else (Inr [], g1)) of
             (Inl e, g2) \<Rightarrow> (Inl e, g2)
           | (Inr s, g2) \<Rightarrow>
               (Inr (acc\<lparr>password := p, sharedSecret := s, encrypted_marker := True\<rparr>), g2)))"

text \<open>\<^verbatim>\<open>decryptAccount(account)\<close> for an account that is not \<^verbatim>\<open>null\<close>.\<close>

definition decryptAccount :: "node_crypto \<Rightarrow> buffer \<Rightarrow> account \<Rightarrow> account" where
  "decryptAccount L encryptionKey acc =
     (if \<not> encrypted_marker acc then acc
      else acc\<lparr>password := decrypt L encryptionKey (password acc) None,
               sharedSecret := (if sharedSecret acc \<noteq> [] then decrypt L encryptionKey (sharedSecret acc) None else []),
               encrypted_marker := False\<rparr>)"

subsection \<open>A small cipher to run the code on concrete inputs\<close>

text \<open>
  Not part of the repository: a stand-in for the platform with the interface above. It
  rejects keys that are not 32 bytes long and empty nonces, accepts 16-byte tags only,
  and its tag depends on key, nonce and ciphertext, so that a wrong key or a changed
  ciphertext is rejected in the examples below as AES-GCM rejects them. It is used
  only to evaluate the functions above on concrete inputs.
\<close>

definition demo_tag :: "buffer \<Rightarrow> buffer \<Rightarrow> buffer \<Rightarrow> buffer" where
  "demo_tag key iv c = map (\<lambda>b. b + sum_list iv + sum_list c) (take TAG_LENGTH key)"

definition demo_crypto :: node_crypto where
  "demo_crypto = \<lparr>
     gcm_encrypt = (\<lambda>key iv p.
        if length key = KEY_LENGTH \<and> iv \<noteq> []
        then let c = map (\<lambda>b. b + hd key) p in Inr (c, demo_tag key iv c)
        else Inl InvalidKeyOrIv),
     gcm_decrypt = (\<lambda>key iv tag c.
        if length key = KEY_LENGTH \<and> iv \<noteq> []
        then if length tag = TAG_LENGTH
             then if tag = demo_tag key iv c then Inr (map (\<lambda>b. b - hd key) c)
                  else Inl AuthFailed
             else Inl InvalidTag
        else Inl InvalidKeyOrIv),
     pbkdf2 = (\<lambda>pw salt. take KEY_LENGTH (map (\<lambda>b. b + word_of_nat (length pw)) salt @ replicate KEY_LENGTH 0))\<rparr>"

definition demo_key :: buffer where
  "demo_key = replicate KEY_LENGTH 7"

definition demo_rng :: rng where
  "demo_rng = \<lparr>source = (\<lambda>i. word_of_nat i), used = 0\<rparr>"

section \<open>BackoffManager (src/unnamed/part_003, the rate limiter module)\<close>

text \<open>
  Delays are JavaScript numbers; they are modelled as real numbers, so rounding of
  doubles and the overflow of \<^verbatim>\<open>Math.pow\<close> to \<^verbatim>\<open>Infinity\<close> are left out. The
  \<^verbatim>\<open>Map\<close> of attempts is a partial function.
\<close>

record BackoffManager =
  baseDelay :: real
  maxDelay :: real
  multiplier :: real
  attempts :: "string \<rightharpoonup> nat"

text \<open>\<^verbatim>\<open>new BackoffManager(baseDelay, maxDelay, multiplier)\<close>.\<close>

definition new_BackoffManager :: "real \<Rightarrow> real \<Rightarrow> real \<Rightarrow> BackoffManager" where
  "new_BackoffManager b m k = \<lparr>baseDelay = b, maxDelay = m, multiplier = k, attempts = Map.empty\<rparr>"






section \<open>StateManager (src/utils/stats.js) and \<^verbatim>\<open>sanitizeObject\<close> (src/utils/valitador.js)\<close>

text \<open>
  JavaScript values as far as JSON can express them, and \<^verbatim>\<open>undefined\<close>. An object is
  the list of its own enumerable properties in enumeration order; numbers are carried
  through unchanged and only integers are represented.
\<close>

datatype json =
    JUndefined
  | JNull
  | JBool bool
  | JNum int
  | JStr string
  | JArr "json list"
  | JObj "(string \<times> json) list"

text \<open>The decimal numeral of an array index, as \<^verbatim>\<open>for (const key in array)\<close> yields it.\<close>

fun decimal :: "nat \<Rightarrow> string" where
  "decimal n =
     (if n < 10 then [''0123456789'' ! n]
      else decimal (n div 10) @ [''0123456789'' ! (n mod 10)])"

definition dangerousKeys :: "string list" where
  "dangerousKeys = [''__proto__'', ''constructor'', ''prototype'']"

text \<open>
  \<^verbatim>\<open>sanitizeObject(obj)\<close>. The result object is always created as \<^verbatim>\<open>{}\<close>, so an
  array comes back as an object keyed by its indices. \<open>sanitize_fields\<close> is the
  \<^verbatim>\<open>for ... in\<close> loop over an object, \<open>sanitize_items\<close> the same loop over an array
  from index \<open>i\<close> on.
\<close>

fun sanitizeObject :: "json \<Rightarrow> json"
  and sanitize_fields :: "(string \<times> json) list \<Rightarrow> (string \<times> json) list"
  and sanitize_items :: "nat \<Rightarrow> json list \<Rightarrow> (string \<times> json) list" where
  "sanitizeObject (JObj kvs) = JObj (sanitize_fields kvs)"
| "sanitizeObject (JArr xs) = JObj (sanitize_items 0 xs)"
| "sanitizeObject JUndefined = JUndefined"
| "sanitizeObject JNull = JNull"
| "sanitizeObject (JBool b) = JBool b"
| "sanitizeObject (JNum n) = JNum n"
| "sanitizeObject (JStr s) = JStr s"
| "sanitize_fields [] = []"
| "sanitize_fields ((k, v) # kvs) =
     (if k \<in> set dangerousKeys then sanitize_fields kvs
      else (k, sanitizeObject v) # sanitize_fields kvs)"
| "sanitize_items i [] = []"
| "sanitize_items i (x # xs) = (decimal i, sanitizeObject x) # sanitize_items (Suc i) xs"















section \<open>Settings: \<^verbatim>\<open>validateSettings\<close> (src/utils/valitador.js) and the settings menu (src/src/accountHandler.js)\<close>

text \<open>
  The value of a settings field: absent (\<^verbatim>\<open>undefined\<close>), \<^verbatim>\<open>null\<close>, a boolean, a number or
  a string. \<open>VNum n\<close> is an integer-valued number of magnitude below \<open>10^21\<close>, the
  numbers \<^verbatim>\<open>String\<close> prints as a plain decimal numeral; strings are ASCII.
\<close>

datatype jsvalue = VUndefined | VNull | VBool bool | VNum int | VStr string















section \<open>Reports of active sessions (src/src/accountHandler.js, src/utils/stats.js)\<close>

text \<open>
  The strings stored in \<^verbatim>\<open>this.accountStates\<close>. \<^verbatim>\<open>this.clients\<close> maps an account name to
  the object \<^verbatim>\<open>{client, account, timer, games, state}\<close> stored by the \<^verbatim>\<open>loggedOn\<close>
  handler; of it the readers below use \<^verbatim>\<open>account.username\<close> and \<^verbatim>\<open>client.steamID\<close>
  (\<open>None\<close> for \<^verbatim>\<open>null\<close>), a property of the external client object. Both \<^verbatim>\<open>Map\<close>s
  are lists of entries in insertion order, without repeated keys.
\<close>

datatype lifecycle =
  Connecting | Authenticating | Active | Error | Disconnected | Failed | Disconnecting

record client_data =
  accountName :: string
  steamID :: "string option"

record booster =
  accountStates :: "(string \<times> lifecycle) list"
  clients :: "(string \<times> client_data) list"

text \<open>\<^verbatim>\<open>showMenu\<close>: the constant \<^verbatim>\<open>activeCount\<close>, printed as \<^verbatim>\<open>[n active]\<close>.\<close>

definition showMenu_activeCount :: "booster \<Rightarrow> nat" where
  "showMenu_activeCount b = length (filter (\<lambda>s. s = Active) (map snd (accountStates b)))"

text \<open>\<^verbatim>\<open>showBoostingPanel\<close>: the constant \<^verbatim>\<open>activeClients\<close> of \<^verbatim>\<open>render\<close>.\<close>

definition showBoostingPanel_activeClients :: "booster \<Rightarrow> client_data list" where
  "showBoostingPanel_activeClients b =
     filter (\<lambda>data. map_of (accountStates b) (accountName data) = Some Active \<and> steamID data \<noteq> None)
       (map snd (clients b))"

text \<open>
  \<^verbatim>\<open>getSidebarInfo\<close>: the flag \<^verbatim>\<open>isOnline\<close> of each of the first five clients, which
  decides between the green and the red marker.
\<close>

definition getSidebarInfo_isOnline :: "booster \<Rightarrow> (string \<times> bool) list" where
  "getSidebarInfo_isOnline b =
     map (\<lambda>(name, data). (name, steamID data \<noteq> None \<and> map_of (accountStates b) name = Some Active))
       (take 5 (clients b))"

text \<open>\<^verbatim>\<open>showDashboard\<close>: the number printed after \<^verbatim>\<open>Active Accounts:\<close>.\<close>

definition showDashboard_activeAccounts :: "booster \<Rightarrow> nat" where
  "showDashboard_activeAccounts b = length (clients b)"

section \<open>RateLimiter: the sliding window\<close>

lemma polls_snoc: "polls rl (cs @ [c]) = poll (polls rl cs) c"
  by (simp add: polls_def)

lemma poll_config:
  "maxRequests (fst (poll st c)) = maxRequests (fst st) \<and> intervalMs (fst (poll st c)) = intervalMs (fst st)"
  by (simp add: poll_def check_def canMakeRequest_def cleanup_def Let_def)

lemma polls_config:
  "maxRequests (fst (polls rl cs)) = maxRequests rl \<and> intervalMs (fst (polls rl cs)) = intervalMs rl"
  by (induction cs rule: rev_induct) (simp_all add: polls_def poll_config)

lemma younger_mono: "c \<le> c' \<Longrightarrow> c' - t < W \<Longrightarrow> c - t < (W::int)"
  by simp

lemma filter_younger_absorb:
  "c \<le> c' \<Longrightarrow> filter (\<lambda>t. c' - t < (W::int)) (filter (\<lambda>t. c - t < W) xs) = filter (\<lambda>t. c' - t < W) xs"
  by (induction xs) auto

lemma polls_sync:
  assumes "requests rl = []" "sorted (clock_reads cs)" "\<forall>x \<in> set (clock_reads cs). x \<le> c"
  shows "filter (\<lambda>t. c - t < intervalMs rl) (requests (fst (polls rl cs)))
       = filter (\<lambda>t. c - t < intervalMs rl) (snd (polls rl cs))"
  using assms
proof (induction cs arbitrary: c rule: rev_induct)
  case Nil
  then show ?case by (simp add: polls_def)
next
  case (snoc e es)
  obtain t1 t2 where e: "e = (t1, t2)" by (cases e)
  from snoc.prems have srt: "sorted (clock_reads es)" and le1: "\<forall>x \<in> set (clock_reads es). x \<le> t1"
    and t12: "t1 \<le> t2" and t1c: "t1 \<le> c"
    by (auto simp: clock_reads_def sorted_append e)
  have ih: "filter (\<lambda>t. t1 - t < intervalMs rl) (requests (fst (polls rl es)))
       = filter (\<lambda>t. t1 - t < intervalMs rl) (snd (polls rl es))"
    using snoc.IH[OF snoc.prems(1) srt le1] .
  have cfg: "intervalMs (fst (polls rl es)) = intervalMs rl" by (simp add: polls_config)
  have a: "filter (\<lambda>t. c - t < intervalMs rl) (filter (\<lambda>t. t1 - t < intervalMs rl) (requests (fst (polls rl es))))
      = filter (\<lambda>t. c - t < intervalMs rl) (snd (polls rl es))"
    by (simp only: ih filter_younger_absorb[OF t1c])
  show ?case
    using a cfg
    by (simp add: polls_snoc e poll_def check_def canMakeRequest_def cleanup_def Let_def)
qed


lemma polls_window:
  assumes "requests rl = []" "0 \<le> maxRequests rl" "sorted (clock_reads cs)"
  shows "int (length (filter (in_window (intervalMs rl) T) (snd (polls rl cs)))) \<le> maxRequests rl"
  using assms(3)
proof (induction cs rule: rev_induct)
  case Nil
  then show ?case using assms(2) by (simp add: polls_def)
next
  case (snoc e es)
  obtain t1 t2 where e: "e = (t1, t2)" by (cases e)
  let ?W = "intervalMs rl"
  let ?rl = "fst (polls rl es)" and ?h = "snd (polls rl es)"
  from snoc.prems have srt: "sorted (clock_reads es)" and le1: "\<forall>x \<in> set (clock_reads es). x \<le> t1"
    and t12: "t1 \<le> t2"
    by (auto simp: clock_reads_def sorted_append e)
  have ih: "int (length (filter (in_window ?W T) ?h)) \<le> maxRequests rl"
    using snoc.IH[OF srt] .
  have cfg: "intervalMs ?rl = ?W" "maxRequests ?rl = maxRequests rl" by (simp_all add: polls_config)
  show ?case
  proof (cases "fst (check e ?rl)")
    case False
    then have "snd (polls rl (es @ [e])) = ?h"
      by (simp add: polls_snoc poll_def case_prod_beta)
    then show ?thesis using ih by simp
  next
    case True
    then have h': "snd (polls rl (es @ [e])) = ?h @ [t2]"
      by (simp add: polls_snoc poll_def e case_prod_beta)
    from True have room: "int (length (filter (\<lambda>t. t1 - t < ?W) (requests ?rl))) < maxRequests rl"
      using cfg
      by (simp add: check_def canMakeRequest_def cleanup_def Let_def e split: if_splits)
    have sync: "filter (\<lambda>t. t1 - t < ?W) (requests ?rl) = filter (\<lambda>t. t1 - t < ?W) ?h"
      using polls_sync[OF assms(1) srt le1] .
    show ?thesis
    proof (cases "t2 \<le> T")
      case False
      then have "filter (in_window ?W T) (?h @ [t2]) = filter (in_window ?W T) ?h"
        by (simp add: in_window_def)
      then show ?thesis using ih h' by simp
    next
      case True
      have "length (filter (in_window ?W T) ?h) \<le> length (filter (\<lambda>t. t1 - t < ?W) ?h)"
      proof -
        have "filter (in_window ?W T) ?h = filter (in_window ?W T) (filter (\<lambda>t. t1 - t < ?W) ?h)"
          using True t12 by (auto simp: in_window_def intro!: filter_cong)
        then show ?thesis by (metis length_filter_le)
      qed
      then have "int (length (filter (in_window ?W T) (?h @ [t2])))
            \<le> int (length (filter (\<lambda>t. t1 - t < ?W) ?h)) + 1"
        by simp
      then show ?thesis using room sync h' by simp
    qed
  qed
qed

text \<open>
  Claim C6. Starting from a fresh limiter with a non-negative \<open>maxRequests\<close> and a
  clock that never runs backwards, after any sequence of acquisition attempts the
  permitted timestamps inside any trailing window of length \<open>intervalMs\<close> number at
  most \<open>maxRequests\<close>. An attempt is permitted exactly when fewer than
  \<open>maxRequests\<close> recorded timestamps are younger than \<open>intervalMs\<close>, and the
  current time is appended to the record exactly then.
\<close>

theorem rate_limiter_window_bound:
  assumes "0 \<le> m" "sorted (clock_reads cs)"
  shows "int (length (filter (in_window w T) (snd (polls (new_RateLimiter m w) cs)))) \<le> m
    \<and> fst (check c rl) = (int (length (filter (\<lambda>t. fst c - t < intervalMs rl) (requests rl))) < maxRequests rl)
    \<and> requests (snd (check c rl)) =
        filter (\<lambda>t. fst c - t < intervalMs rl) (requests rl) @ (if fst (check c rl) then [snd c] else [])"
proof -
  have "int (length (filter (in_window (intervalMs (new_RateLimiter m w)) T)
           (snd (polls (new_RateLimiter m w) cs)))) \<le> maxRequests (new_RateLimiter m w)"
    by (rule polls_window) (use assms in \<open>simp_all add: new_RateLimiter_def\<close>)
  then have a: "int (length (filter (in_window w T) (snd (polls (new_RateLimiter m w) cs)))) \<le> m"
    by (simp add: new_RateLimiter_def)
  have b: "fst (check c rl) = (int (length (filter (\<lambda>t. fst c - t < intervalMs rl) (requests rl))) < maxRequests rl)"
    by (simp add: check_def canMakeRequest_def cleanup_def Let_def)
  have d: "requests (snd (check c rl)) =
        filter (\<lambda>t. fst c - t < intervalMs rl) (requests rl) @ (if fst (check c rl) then [snd c] else [])"
    by (simp add: check_def canMakeRequest_def cleanup_def Let_def)
  from a b d show ?thesis by blast
qed

theorem rate_limiter_window_bound_witness:
  "snd (polls (new_RateLimiter 2 10) [(0, 0), (1, 1), (2, 3), (11, 11)]) = [0, 1, 11]
   \<and> int (length (filter (in_window 10 11) (snd (polls (new_RateLimiter 2 10) [(0, 0), (1, 1), (2, 3), (11, 11)])))) \<le> 2
   \<and> fst (check (2, 3) \<lparr>maxRequests = 2, intervalMs = 10, requests = [0, 1]\<rparr>) = False"
proof -
  have s: "sorted (clock_reads [(0, 0), (1, 1), (2, 3), (11, 11)])"
    by (simp add: clock_reads_def)
  have h: "snd (polls (new_RateLimiter 2 10) [(0, 0), (1, 1), (2, 3), (11, 11)]) = [0, 1, 11]"
    by (simp add: polls_def poll_def check_def canMakeRequest_def cleanup_def new_RateLimiter_def Let_def)
  show ?thesis
    using rate_limiter_window_bound [of 2 "[(0, 0), (1, 1), (2, 3), (11, 11)]" 10 11 "(2, 3)"
        "\<lparr>maxRequests = 2, intervalMs = 10, requests = [0, 1]\<rparr>", OF _ s] h
    by simp
qed

section \<open>ConcurrencyLimiter: slots\<close>



lemma queued_upd_in:
  "{j. (f(i := Queued)) j = Queued} = insert i {j. f j = Queued}"
  by auto

lemma queued_upd_out:
  "v \<noteq> Queued \<Longrightarrow> {j. (f(i := v)) j = Queued} = {j. f j = Queued} - {i}"
  by auto














section \<open>CryptoManager: envelopes\<close>

lemma sixteen_cases:
  assumes "n < (16::nat)"
  shows "n \<in> {0, 1, 2, 3, 4, 5, 6, 7, 8, 9, 10, 11, 12, 13, 14, 15}"
  using assms by (simp add: insert_iff) arith

lemma hex_val_hex_digit: "n < 16 \<Longrightarrow> hex_val (hex_digit n) = Some n"
  by (drule sixteen_cases) (auto simp: hex_digit_def hex_val_def)

lemma hex_digit_not_colon: "n < 16 \<Longrightarrow> hex_digit n \<noteq> CHR '':''"
  by (drule sixteen_cases) (auto simp: hex_digit_def)

lemma to_hex_Cons:
  "to_hex (b # bs) = hex_digit (unat b div 16) # hex_digit (unat b mod 16) # to_hex bs"
  by (simp add: to_hex_def)

lemma nibbles_small: "unat (b::byte) div 16 < 16" "unat b mod 16 < 16"
  using unsigned_less [of b, where 'a = nat] by (simp_all add: less_mult_imp_div_less)

lemma from_hex_to_hex: "from_hex (to_hex bs) = bs"
proof (induction bs)
  case Nil
  then show ?case by (simp add: to_hex_def)
next
  case (Cons b bs)
  then show ?case using nibbles_small [of b] by (simp add: to_hex_Cons hex_val_hex_digit)
qed

lemma to_hex_no_colon: "CHR '':'' \<notin> set (to_hex bs)"
proof (induction bs)
  case Nil
  then show ?case by (simp add: to_hex_def)
next
  case (Cons b bs)
  then show ?case
    using hex_digit_not_colon [OF nibbles_small(1), of b] hex_digit_not_colon [OF nibbles_small(2), of b]
    by (auto simp: to_hex_Cons)
qed

lemma utf8_round_trip: "utf8_string (utf8_bytes s) = s"
proof -
  have "char_of (unat (word_of_nat (of_char c) :: byte)) = c" for c :: char
  proof -
    have "of_char c < (256::nat)" by simp
    then have "unat (word_of_nat (of_char c) :: byte) = of_char c"
      by (simp add: unat_of_nat)
    then show ?thesis by simp
  qed
  then show ?thesis by (simp add: utf8_string_def utf8_bytes_def map_idI)
qed

lemma split_on_no_sep: "c \<notin> set s \<Longrightarrow> split_on c s = [s]"
  by (induction s) (auto simp: Let_def)

lemma split_on_append: "c \<notin> set a \<Longrightarrow> split_on c (a @ c # rest) = a # split_on c rest"
  by (induction a) (auto simp: Let_def)

lemma split_envelope3:
  "split_on CHR '':'' (to_hex a @ CHR '':'' # to_hex b @ CHR '':'' # to_hex c)
     = [to_hex a, to_hex b, to_hex c]"
  by (simp add: split_on_append split_on_no_sep to_hex_no_colon)

lemma split_envelope4:
  "split_on CHR '':'' (to_hex s @ CHR '':'' # to_hex a @ CHR '':'' # to_hex b @ CHR '':'' # to_hex c)
     = [to_hex s, to_hex a, to_hex b, to_hex c]"
  by (simp add: split_on_append split_on_no_sep to_hex_no_colon)

text \<open>
  Without a password the round trip holds for every plaintext, whatever password is
  passed to \<^verbatim>\<open>decrypt\<close>: the envelope has three parts, and both directions use
  \<^verbatim>\<open>this.encryptionKey\<close>. The hypothesis is the correctness of the platform's cipher.
\<close>

lemma master_key_round_trip:
  assumes gcm: "\<And>iv p c t. gcm_encrypt L K iv p = Inr (c, t) \<Longrightarrow> gcm_decrypt L K iv t c = Inr p"
    and enc: "fst (encrypt L K plaintext None g) = Inr e"
  shows "decrypt L K e pw = plaintext"
proof (cases "plaintext = []")
  case True
  then show ?thesis using enc by (simp add: encrypt_def decrypt_def)
next
  case False
  define iv where "iv = fst (randomBytes IV_LENGTH g)"
  obtain c t where ct: "gcm_encrypt L K iv (utf8_bytes plaintext) = Inr (c, t)"
    and e: "e = to_hex iv @ '':'' @ to_hex t @ '':'' @ to_hex c"
    using enc False
    by (auto simp: encrypt_def truthy_def iv_def case_prod_beta Let_def split: sum.splits)
  have dec: "gcm_decrypt L K iv t c = Inr (utf8_bytes plaintext)"
    using gcm [OF ct] .
  have "decrypt_try L K e pw = Inr plaintext"
    by (simp add: decrypt_try_def e split_envelope3 element_def decipher_def Buffer_from_hex_def
        from_hex_to_hex dec utf8_round_trip Let_def)
  then show ?thesis by (simp add: decrypt_def e)
qed

text \<open>The cipher used in the examples satisfies that hypothesis.\<close>

lemma demo_crypto_correct:
  assumes "gcm_encrypt demo_crypto K iv p = Inr (c, t)"
  shows "gcm_decrypt demo_crypto K iv t c = Inr p"
proof -
  have k: "length K = KEY_LENGTH" "iv \<noteq> []"
    using assms by (auto simp: demo_crypto_def split: if_splits)
  then have ct: "c = map (\<lambda>b. b + hd K) p" "t = demo_tag K iv c"
    using assms by (auto simp: demo_crypto_def Let_def)
  have "length t = TAG_LENGTH"
    using k(1) by (simp add: ct(2) demo_tag_def KEY_LENGTH_def TAG_LENGTH_def)
  moreover have "map (\<lambda>b. b - hd K) c = p"
    by (simp add: ct(1) o_def)
  ultimately show ?thesis using k ct(2) by (simp add: demo_crypto_def)
qed

text \<open>
  With a password, the envelope carries the third draw of random bytes while the key
  was derived from the first.
\<close>

lemma password_envelope:
  assumes "plaintext \<noteq> []" "pw \<noteq> []"
    and "gcm_encrypt L (pbkdf2 L pw (map (source g) [used g ..< used g + 64]))
           (map (source g) [used g + 64 ..< used g + 80]) (utf8_bytes plaintext) = Inr (c, t)"
  shows "fst (encrypt L K plaintext (Some pw) g)
     = Inr (to_hex (map (source g) [used g + 80 ..< used g + 144]) @ '':''
            @ to_hex (map (source g) [used g + 64 ..< used g + 80]) @ '':'' @ to_hex t @ '':'' @ to_hex c)"
  using assms
  by (simp add: encrypt_def truthy_def randomBytes_def deriveKey_def SALT_LENGTH_def IV_LENGTH_def
      Let_def add.assoc)

text \<open>
  \<^verbatim>\<open>decrypt\<close> derives its key from the salt it finds in the envelope, so the
  plaintext comes back only if the cipher accepts that other key.
\<close>

lemma password_decrypt_key:
  "decrypt L K (to_hex salt @ '':'' @ to_hex iv @ '':'' @ to_hex t @ '':'' @ to_hex c) (Some pw)
     = (case gcm_decrypt L (pbkdf2 L pw salt) iv t c of
          Inl e \<Rightarrow> to_hex salt @ '':'' @ to_hex iv @ '':'' @ to_hex t @ '':'' @ to_hex c
        | Inr p \<Rightarrow> utf8_string p)"
  by (simp add: decrypt_def decrypt_try_def split_envelope4 element_def decipher_def
      Buffer_from_hex_def deriveKey_def from_hex_to_hex Let_def split: sum.splits)

text \<open>
  Claim C2 (the code departs from it). With a password, \<^verbatim>\<open>decrypt(encrypt(p, pw), pw)\<close>
  is not \<open>p\<close>: \<^verbatim>\<open>decrypt\<close> derives its key from the salt in the envelope, which is
  not the salt \<^verbatim>\<open>encrypt\<close> derived its key from, tag verification fails and the
  envelope itself comes back. Evaluated for the plaintext \<open>hi\<close> and the password
  \<open>pw\<close>, with the bytes 0, 1, 2, ... as random bytes.
\<close>

theorem password_round_trip_fails:
  "fst (encrypt demo_crypto demo_key ''hi'' (Some ''pw'') demo_rng)
     = Inr ''505152535455565758595a5b5c5d5e5f606162636465666768696a6b6c6d6e6f707172737475767778797a7b7c7d7e7f808182838485868788898a8b8c8d8e8f:404142434445464748494a4b4c4d4e4f:4f505152535455565758595a5b5c5d5e:6a6b''
   \<and> decrypt_try demo_crypto demo_key
        ''505152535455565758595a5b5c5d5e5f606162636465666768696a6b6c6d6e6f707172737475767778797a7b7c7d7e7f808182838485868788898a8b8c8d8e8f:404142434445464748494a4b4c4d4e4f:4f505152535455565758595a5b5c5d5e:6a6b''
        (Some ''pw'') = Inl AuthFailed
   \<and> decrypt demo_crypto demo_key
        ''505152535455565758595a5b5c5d5e5f606162636465666768696a6b6c6d6e6f707172737475767778797a7b7c7d7e7f808182838485868788898a8b8c8d8e8f:404142434445464748494a4b4c4d4e4f:4f505152535455565758595a5b5c5d5e:6a6b''
        (Some ''pw'') \<noteq> ''hi''"
  by code_simp








text \<open>
  Claim C4 (the code departs from it). \<^verbatim>\<open>encryptAccount\<close> never reads the marker: its
  result is the same whether the marker is set or not. On a record that is already
  encrypted (the envelope of the password \<open>pw\<close>, marker set) it encrypts the envelope
  again, and one \<^verbatim>\<open>decryptAccount\<close> then yields a record marked as decrypted whose
  password is still the first envelope.
\<close>

theorem encryptAccount_ignores_marker:
  "encryptAccount L K (acc\<lparr>encrypted_marker := True\<rparr>) g
     = encryptAccount L K (acc\<lparr>encrypted_marker := False\<rparr>) g
   \<and> fst (encryptAccount demo_crypto demo_key
        \<lparr>username = ''bob'',
         password = ''000102030405060708090a0b0c0d0e0f:74747474747474747474747474747474:777e'',
         sharedSecret = '''', encrypted_marker = True\<rparr>
        (demo_rng\<lparr>used := 16\<rparr>))
     = Inr \<lparr>username = ''bob'',
         password = ''101112131415161718191a1b1c1d1e1f:f9f9f9f9f9f9f9f9f9f9f9f9f9f9f9f9:373737383739373a373b373c373d373e373f374037683769376a376b376c376d413e3b3e3b3e3b3e3b3e3b3e3b3e3b3e3b3e3b3e3b3e3b3e3b3e3b3e3b3e3b3e3b413e3e3e6c'',
         sharedSecret = '''', encrypted_marker = True\<rparr>
   \<and> decryptAccount demo_crypto demo_key
        \<lparr>username = ''bob'',
         password = ''101112131415161718191a1b1c1d1e1f:f9f9f9f9f9f9f9f9f9f9f9f9f9f9f9f9:373737383739373a373b373c373d373e373f374037683769376a376b376c376d413e3b3e3b3e3b3e3b3e3b3e3b3e3b3e3b3e3b3e3b3e3b3e3b3e3b3e3b3e3b3e3b413e3e3e6c'',
         sharedSecret = '''', encrypted_marker = True\<rparr>
     = \<lparr>username = ''bob'',
         password = ''000102030405060708090a0b0c0d0e0f:74747474747474747474747474747474:777e'',
         sharedSecret = '''', encrypted_marker = False\<rparr>"
proof -
  have a: "encryptAccount L K (acc\<lparr>encrypted_marker := True\<rparr>) g
     = encryptAccount L K (acc\<lparr>encrypted_marker := False\<rparr>) g"
    by (simp add: encryptAccount_def split: prod.splits sum.splits)
  have b: "fst (encryptAccount demo_crypto demo_key
        \<lparr>username = ''bob'',
         password = ''000102030405060708090a0b0c0d0e0f:74747474747474747474747474747474:777e'',
         sharedSecret = '''', encrypted_marker = True\<rparr>
        (demo_rng\<lparr>used := 16\<rparr>))
     = Inr \<lparr>username = ''bob'',
         password = ''101112131415161718191a1b1c1d1e1f:f9f9f9f9f9f9f9f9f9f9f9f9f9f9f9f9:373737383739373a373b373c373d373e373f374037683769376a376b376c376d413e3b3e3b3e3b3e3b3e3b3e3b3e3b3e3b3e3b3e3b3e3b3e3b3e3b3e3b3e3b3e3b413e3e3e6c'',
         sharedSecret = '''', encrypted_marker = True\<rparr>"
    by code_simp
  have c: "decryptAccount demo_crypto demo_key
        \<lparr>username = ''bob'',
         password = ''101112131415161718191a1b1c1d1e1f:f9f9f9f9f9f9f9f9f9f9f9f9f9f9f9f9:373737383739373a373b373c373d373e373f374037683769376a376b376c376d413e3b3e3b3e3b3e3b3e3b3e3b3e3b3e3b3e3b3e3b3e3b3e3b3e3b3e3b3e3b3e3b413e3e3e6c'',
         sharedSecret = '''', encrypted_marker = True\<rparr>
     = \<lparr>username = ''bob'',
         password = ''000102030405060708090a0b0c0d0e0f:74747474747474747474747474747474:777e'',
         sharedSecret = '''', encrypted_marker = False\<rparr>"
    by code_simp
  from a b c show ?thesis by blast
qed




section \<open>BackoffManager: delays\<close>




section \<open>StateManager: the snapshot is replaced by a rename\<close>








section \<open>Settings: what is validated where\<close>








section \<open>Reports of active sessions: who checks what\<close>

text \<open>The boosting panel and the sidebar apply both tests.\<close>

lemma boosting_panel_conjunction:
  "data \<in> set (showBoostingPanel_activeClients b)
     = (data \<in> snd ` set (clients b)
        \<and> map_of (accountStates b) (accountName data) = Some Active \<and> steamID data \<noteq> None)"
  by (auto simp: showBoostingPanel_activeClients_def)

lemma sidebar_conjunction:
  "(name, online) \<in> set (getSidebarInfo_isOnline b)
     = (\<exists>data. (name, data) \<in> set (take 5 (clients b))
          \<and> online = (steamID data \<noteq> None \<and> map_of (accountStates b) name = Some Active))"
  by (auto simp: getSidebarInfo_isOnline_def)

text \<open>
  Claim C1 (the code departs from it). With one account whose recorded state is
  \<open>active\<close> while its client object has no \<^verbatim>\<open>steamID\<close>, the boosting panel lists no
  session and the sidebar marks the account offline, but the main menu counts one
  active session: \<^verbatim>\<open>showMenu\<close> tests the recorded state alone. The dashboard prints
  the number of client entries as active accounts, whatever their state.
\<close>

theorem main_menu_counts_state_alone:
  "showMenu_activeCount
      \<lparr>accountStates = [(''bob'', Active)],
       clients = [(''bob'', \<lparr>accountName = ''bob'', steamID = None\<rparr>)]\<rparr> = 1
   \<and> showBoostingPanel_activeClients
      \<lparr>accountStates = [(''bob'', Active)],
       clients = [(''bob'', \<lparr>accountName = ''bob'', steamID = None\<rparr>)]\<rparr> = []
   \<and> getSidebarInfo_isOnline
      \<lparr>accountStates = [(''bob'', Active)],
       clients = [(''bob'', \<lparr>accountName = ''bob'', steamID = None\<rparr>)]\<rparr> = [(''bob'', False)]
   \<and> showDashboard_activeAccounts
      \<lparr>accountStates = [(''bob'', Disconnected)],
       clients = [(''bob'', \<lparr>accountName = ''bob'', steamID = None\<rparr>)]\<rparr> = 1"
  by (simp add: showMenu_activeCount_def showBoostingPanel_activeClients_def
      getSidebarInfo_isOnline_def showDashboard_activeAccounts_def)

end
